theory Spec2Isabelle
  imports Complex_Main
begin

section \<open>Values, exceptions and time\<close>

text \<open>
  The services exchange Python objects decoded from JSON. A text is a list of characters,
  one character per code point (code points below 256), so \<open>length\<close> is Python's \<open>len\<close>.
  A float is either a finite number or one of the three special values that
  \<open>json.loads\<close> also accepts. The items of a \<open>VDict\<close> are the items of the Python
  dict (keys distinct), looked up with \<open>map_of\<close>.
\<close>

datatype pyfloat = Finite rat | PosInf | NegInf | NaN

datatype pyval =
    VNone
  | VBool bool
  | VInt int
  | VFloat pyfloat
  | VStr string
  | VList "pyval list"
  | VDict "(string \<times> pyval) list"

text \<open>The exceptions that the modelled code raises or receives from its collaborators.\<close>

datatype exn =
    ValueError
  | AttributeError
  | TypeError
  | JSONDecodeError
  | RecursionError
  | ConnectError
  | TimeoutError
  | OperationalError
  | StatementError

text \<open>A reading of \<open>datetime.utcnow()\<close>, in seconds.\<close>

type_synonym datetime = nat

section \<open>Classification engine (app/services/ai_classifier.py)\<close>

text \<open>The result dict of the classifier: the fallback sets four keys, the validation six.\<close>

record classification =
  res_category :: string
  res_summary :: pyval
  res_confidence :: pyval
  res_method :: string
  res_model :: "string option"
  res_timestamp :: "datetime option"

text \<open>
  What one HTTP call can do: fail in the transport, time out, or answer with a status
  code and a body. The body of the generate call is what \<open>response.json()\<close> gives:
  an exception when the body is not JSON, the decoded object otherwise.
\<close>

datatype 'b http_outcome = NetworkError | Timeout | Response nat 'b

text \<open>
  The classifier object with its collaborators: the configured model name, the answer of
  the health probe and of the generate call, the library functions \<open>json.loads\<close> and
  \<open>re.findall\<close> (with the pattern of \<open>parse_ai_response\<close>), and the clock reading
  taken by the validation.
\<close>

record classifier =
  model :: string
  health_reply :: "unit http_outcome"
  generate_reply :: "(exn + pyval) http_outcome"
  json_loads :: "string \<Rightarrow> exn + pyval"
  re_findall :: "string \<Rightarrow> string list"
  utcnow_validate :: datetime

definition fallback_categories :: "(string \<times> string) list" where
  "fallback_categories =
    [(''cancel'', ''cancellation_request''),
     (''refund'', ''cancellation_request''),
     (''stop'', ''cancellation_request''),
     (''billing'', ''billing''),
     (''payment'', ''billing''),
     (''invoice'', ''billing''),
     (''technical'', ''technical_issue''),
     (''bug'', ''technical_issue''),
     (''error'', ''technical_issue''),
     (''crash'', ''technical_issue''),
     (''feature'', ''feature_request''),
     (''suggestion'', ''feature_request''),
     (''complaint'', ''complaint''),
     (''problem'', ''complaint'')]"

text \<open>\<open>check_ollama_health\<close>: status 200 is healthy, every exception is swallowed.\<close>

definition check_ollama_health :: "'a classifier_scheme \<Rightarrow> bool" where
  "check_ollama_health self =
     (case health_reply self of
        Response status _ \<Rightarrow> status = 200
      | NetworkError \<Rightarrow> False
      | Timeout \<Rightarrow> False)"

text \<open>\<open>str.lower\<close> on one code point below 256.\<close>

definition lower_char :: "char \<Rightarrow> char" where
  "lower_char c =
     (let n = (of_char c :: nat)
      in if (65 \<le> n \<and> n \<le> 90) \<or> (192 \<le> n \<and> n \<le> 222 \<and> n \<noteq> 215)
         then char_of (n + 32) else c)"

definition lower :: "string \<Rightarrow> string" where
  "lower s = map lower_char s"

text \<open>\<open>keyword in text\<close>: the keyword occurs as a contiguous piece of the text.\<close>

fun startswith :: "string \<Rightarrow> string \<Rightarrow> bool" where
  "startswith text [] = True"
| "startswith [] (k # ks) = False"
| "startswith (c # cs) (k # ks) = (c = k \<and> startswith cs ks)"

fun contains :: "string \<Rightarrow> string \<Rightarrow> bool" where
  "contains [] keyword = (keyword = [])"
| "contains (c # cs) keyword = (startswith (c # cs) keyword \<or> contains cs keyword)"

text \<open>The loop of \<open>fallback_classify\<close> over the items of the table, in insertion order.\<close>

fun scan_keywords :: "(string \<times> string) list \<Rightarrow> string \<Rightarrow> classification" where
  "scan_keywords [] text =
     \<lparr>res_category = ''general_inquiry'',
      res_summary = VStr ''General inquiry - requires manual review'',
      res_confidence = VFloat (Finite (5 / 10)),
      res_method = ''fallback'',
      res_model = None,
      res_timestamp = None\<rparr>"
| "scan_keywords ((keyword, category) # items) text =
     (if contains text keyword
      then \<lparr>res_category = category,
            res_summary = VStr (''Fallback classification: '' @ category @
                                '' (keyword: '' @ keyword @ '')''),
            res_confidence = VFloat (Finite (6 / 10)),
            res_method = ''fallback'',
            res_model = None,
            res_timestamp = None\<rparr>
      else scan_keywords items text)"

definition fallback_classify :: "string \<Rightarrow> string \<Rightarrow> classification" where
  "fallback_classify subject description =
     scan_keywords fallback_categories (lower (subject @ '' '' @ description))"

text \<open>
  \<open>str.strip\<close>: the characters for which \<open>str.isspace\<close> holds, among the code
  points below 256.
\<close>

definition isspace :: "char \<Rightarrow> bool" where
  "isspace c = ((of_char c :: nat) \<in> {9, 10, 11, 12, 13, 28, 29, 30, 31, 32, 133, 160})"

definition strip :: "string \<Rightarrow> string" where
  "strip s = rev (dropWhile isspace (rev (dropWhile isspace s)))"

text \<open>The loop of \<open>parse_ai_response\<close> over the matches: the first one that decodes wins,
  a \<open>JSONDecodeError\<close> moves on to the next, any other exception leaves the loop.\<close>

fun first_decodable :: "(string \<Rightarrow> exn + pyval) \<Rightarrow> string list \<Rightarrow> exn + pyval" where
  "first_decodable loads [] =
     Inr (VDict [(''category'', VStr ''general_inquiry''),
                 (''summary'', VStr ''AI parsing failed - manual review needed''),
                 (''confidence'', VFloat (Finite (3 / 10)))])"
| "first_decodable loads (m # ms) =
     (case loads m of
        Inr v \<Rightarrow> Inr v
      | Inl JSONDecodeError \<Rightarrow> first_decodable loads ms
      | Inl e \<Rightarrow> Inl e)"

text \<open>\<open>parse_ai_response\<close>. The argument is \<open>ollama_result.get('response', '')\<close>, any
  decoded value; \<open>.strip()\<close> exists on a text only.\<close>

definition parse_ai_response :: "'a classifier_scheme \<Rightarrow> pyval \<Rightarrow> exn + pyval" where
  "parse_ai_response self ai_response =
     (case ai_response of
        VStr s \<Rightarrow>
          (case json_loads self (strip s) of
             Inr v \<Rightarrow> Inr v
           | Inl JSONDecodeError \<Rightarrow> first_decodable (json_loads self) (re_findall self s)
           | Inl e \<Rightarrow> Inl e)
      | _ \<Rightarrow> Inl AttributeError)"

definition valid_categories :: "string list" where
  "valid_categories =
    [''billing'', ''technical_issue'', ''cancellation_request'',
     ''feature_request'', ''complaint'', ''general_inquiry'', ''other'']"

text \<open>\<open>result.get(key, default)\<close>: only a dict has \<open>get\<close>.\<close>

definition dict_get :: "pyval \<Rightarrow> string \<Rightarrow> pyval \<Rightarrow> exn + pyval" where
  "dict_get d key dflt =
     (case d of
        VDict items \<Rightarrow> Inr (case map_of items key of Some v \<Rightarrow> v | None \<Rightarrow> dflt)
      | _ \<Rightarrow> Inl AttributeError)"

text \<open>\<open>category not in valid_categories\<close> replaces the category; a value that is no
  text equals none of the entries.\<close>

definition clean_category :: "pyval \<Rightarrow> string" where
  "clean_category category =
     (case category of
        VStr s \<Rightarrow> if s \<notin> set valid_categories then ''general_inquiry'' else s
      | _ \<Rightarrow> ''general_inquiry'')"

text \<open>\<open>len(summary)\<close> and the slice \<open>summary[:497] + "..."\<close>.\<close>

definition py_len :: "pyval \<Rightarrow> exn + nat" where
  "py_len v =
     (case v of
        VStr s \<Rightarrow> Inr (length s)
      | VList xs \<Rightarrow> Inr (length xs)
      | VDict items \<Rightarrow> Inr (length items)
      | _ \<Rightarrow> Inl TypeError)"

definition clean_summary :: "pyval \<Rightarrow> exn + pyval" where
  "clean_summary summary =
     (case py_len summary of
        Inl e \<Rightarrow> Inl e
      | Inr n \<Rightarrow>
          if n > 500
          then (case summary of
                  VStr s \<Rightarrow> Inr (VStr (take 497 s @ ''...''))
                | _ \<Rightarrow> Inl TypeError)
          else Inr summary)"

text \<open>\<open>isinstance(confidence, (int, float))\<close> (a bool is an int) and the two comparisons
  \<open>confidence < 0\<close>, \<open>confidence > 1\<close>, both false on NaN.\<close>

definition is_int_or_float :: "pyval \<Rightarrow> bool" where
  "is_int_or_float v =
     (case v of VBool _ \<Rightarrow> True | VInt _ \<Rightarrow> True | VFloat _ \<Rightarrow> True | _ \<Rightarrow> False)"

definition lt_zero :: "pyval \<Rightarrow> bool" where
  "lt_zero v =
     (case v of
        VInt i \<Rightarrow> i < 0
      | VFloat (Finite q) \<Rightarrow> q < 0
      | VFloat NegInf \<Rightarrow> True
      | _ \<Rightarrow> False)"

definition gt_one :: "pyval \<Rightarrow> bool" where
  "gt_one v =
     (case v of
        VInt i \<Rightarrow> i > 1
      | VFloat (Finite q) \<Rightarrow> q > 1
      | VFloat PosInf \<Rightarrow> True
      | _ \<Rightarrow> False)"

definition clean_confidence :: "pyval \<Rightarrow> pyval" where
  "clean_confidence confidence =
     (if \<not> is_int_or_float confidence \<or> lt_zero confidence \<or> gt_one confidence
      then VFloat (Finite (7 / 10)) else confidence)"

definition validate_classification_result ::
  "'a classifier_scheme \<Rightarrow> pyval \<Rightarrow> string \<Rightarrow> string \<Rightarrow> exn + classification" where
  "validate_classification_result self result subject description =
     (case dict_get result ''category'' (VStr ''general_inquiry'') of
        Inl e \<Rightarrow> Inl e
      | Inr category \<Rightarrow>
     (case dict_get result ''summary'' (VStr ''No summary provided'') of
        Inl e \<Rightarrow> Inl e
      | Inr summary \<Rightarrow>
     (case clean_summary summary of
        Inl e \<Rightarrow> Inl e
      | Inr summary' \<Rightarrow>
     (case dict_get result ''confidence'' (VFloat (Finite (7 / 10))) of
        Inl e \<Rightarrow> Inl e
      | Inr confidence \<Rightarrow>
          Inr \<lparr>res_category = clean_category category,
               res_summary = summary',
               res_confidence = clean_confidence confidence,
               res_method = ''ollama_ai'',
               res_model = Some (model self),
               res_timestamp = Some (utcnow_validate self)\<rparr>))))"

text \<open>The \<open>try\<close> block of \<open>classify_request\<close>: the POST, the status check, the decoding
  of the body, the parsing and the validation.\<close>

definition classify_remote ::
  "'a classifier_scheme \<Rightarrow> string \<Rightarrow> string \<Rightarrow> exn + classification" where
  "classify_remote self subject description =
     (case generate_reply self of
        NetworkError \<Rightarrow> Inl ConnectError
      | Timeout \<Rightarrow> Inl TimeoutError
      | Response status body \<Rightarrow>
          if status \<noteq> 200 then Inr (fallback_classify subject description)
          else (case body of
                  Inl e \<Rightarrow> Inl e
                | Inr ollama_result \<Rightarrow>
                    (case dict_get ollama_result ''response'' (VStr '''') of
                       Inl e \<Rightarrow> Inl e
                     | Inr ai_response \<Rightarrow>
                         (case parse_ai_response self ai_response of
                            Inl e \<Rightarrow> Inl e
                          | Inr result \<Rightarrow>
                              validate_classification_result self result subject description))))"

text \<open>\<open>classify_request\<close>: the health probe first, then the \<open>try\<close> block with its two
  handlers, which both answer with the fallback.\<close>

definition classify_request ::
  "'a classifier_scheme \<Rightarrow> string \<Rightarrow> string \<Rightarrow> exn + classification" where
  "classify_request self subject description =
     (if \<not> check_ollama_health self then Inr (fallback_classify subject description)
      else (case classify_remote self subject description of
              Inr result \<Rightarrow> Inr result
            | Inl TimeoutError \<Rightarrow> Inr (fallback_classify subject description)
            | Inl e \<Rightarrow> Inr (fallback_classify subject description)))"

section \<open>Request store (app/models.py)\<close>

text \<open>
  A row of \<open>support_requests\<close>. The primary key is the key of the store; the two
  status columns are texts, as the source compares them.
\<close>

record support_request =
  customer_name :: string
  email :: string
  subject :: string
  description :: string
  category :: "string option"
  ai_summary :: "string option"
  processing_status :: string
  notification_sent :: string
  created_at :: datetime
  updated_at :: datetime
  processed_at :: "datetime option"

type_synonym store = "int \<rightharpoonup> support_request"

text \<open>
  \<open>db.commit()\<close> writes the session's row. The ORM issues an UPDATE, and with it the
  \<open>onupdate\<close> stamp of \<open>updated_at\<close>, only when the row differs from the persisted
  one. The store itself is taken as reachable: a read or a commit does not raise.
\<close>

definition stamp :: "store \<Rightarrow> int \<Rightarrow> support_request \<Rightarrow> datetime \<Rightarrow> support_request" where
  "stamp db rid request now =
     (if db rid = Some request then request else request\<lparr>updated_at := now\<rparr>)"

section \<open>Notification dispatcher (app/services/teams_notifier.py)\<close>

record message_card =
  card_request :: int
  card_customer :: string
  card_email :: string
  card_subject :: string
  card_category :: string
  card_created :: datetime
  card_text :: string
  card_uri_request :: int

text \<open>
  What a task does to its collaborators, in order: a commit with the row it persists,
  a call of \<open>send_teams_notification.delay\<close> that returned, so that the notification
  task is in the queue, a POST to the webhook. A commit or a call that raises does nothing
  to its collaborator and is no event.
\<close>

datatype event =
    Commit int support_request
  | Delay int
  | Post string message_card

text \<open>The notifier with its collaborators: the configured URL, the answer of the webhook
  and the clock reading that goes into the notification id.\<close>

record notifier =
  webhook_url :: "string option"
  post_reply :: "unit http_outcome"
  utcnow_sent :: datetime

definition build_card :: "int \<Rightarrow> support_request \<Rightarrow> message_card" where
  "build_card rid support_request =
     \<lparr>card_request = rid,
      card_customer = customer_name support_request,
      card_email = email support_request,
      card_subject = subject support_request,
      card_category = (case category support_request of
                         None \<Rightarrow> ''Not classified''
                       | Some c \<Rightarrow> if c = [] then ''Not classified'' else c),
      card_created = created_at support_request,
      card_text = take 500 (description support_request) @
                  (if length (description support_request) > 500 then ''...'' else []),
      card_uri_request = rid\<rparr>"

text \<open>\<open>send_cancellation_alert\<close>: the notification id (request id and time) or none,
  and the POST it made, if any.\<close>

definition send_cancellation_alert ::
  "'a notifier_scheme \<Rightarrow> int \<Rightarrow> support_request \<Rightarrow> (int \<times> datetime) option \<times> event list" where
  "send_cancellation_alert self rid support_request =
     (case webhook_url self of
        None \<Rightarrow> (None, [])
      | Some url \<Rightarrow>
          if url = [] \<or> url = ''https://your-teams-webhook-url-here'' then (None, [])
          else (case post_reply self of
                  Response status _ \<Rightarrow>
                    if status = 200 then Some (rid, utcnow_sent self) else None
                | NetworkError \<Rightarrow> None
                | Timeout \<Rightarrow> None,
                [Post url (build_card rid support_request)]))"

section \<open>Tasks (app/tasks.py)\<close>

text \<open>
  The worker that runs \<open>process_support_request\<close>: the classifier it constructs, the
  clock readings (the \<open>onupdate\<close> stamp of each commit and \<open>processed_at\<close>), and what
  \<open>send_teams_notification.delay\<close> does: it returns, or it raises because the broker
  does not take the message. The last field is what the commit of the \<open>except\<close> block
  does after the completing commit has raised: it persists the failed mark, or it raises
  in turn because the session wants a rollback first.
\<close>

record worker =
  ai :: classifier
  utcnow_processing :: datetime
  utcnow_processed :: datetime
  utcnow_completed :: datetime
  utcnow_failed :: datetime
  delay_raises :: "exn option"
  recommit :: "exn option"

text \<open>
  The \<open>except\<close> block of \<open>process_support_request\<close>. The name \<open>request\<close> is bound as
  soon as the query has returned, so \<open>'request' in locals()\<close> holds; when the query
  found no row the assignment to an attribute of \<open>None\<close> raises, otherwise the row is
  marked failed, committed, and the exception raised again.
\<close>

definition mark_failed ::
  "'a worker_scheme \<Rightarrow> store \<Rightarrow> int \<Rightarrow> support_request option \<Rightarrow> exn \<Rightarrow> event list \<Rightarrow>
     (exn + 'r) \<times> store \<times> event list" where
  "mark_failed w db rid request e tr =
     (case request of
        None \<Rightarrow> (Inl AttributeError, db, tr)
      | Some r \<Rightarrow>
          (let r' = stamp db rid (r\<lparr>processing_status := ''failed''\<rparr>) (utcnow_failed w)
           in (Inl e, db(rid \<mapsto> r'), tr @ [Commit rid r'])))"

text \<open>
  The completing commit of a result whose summary is no text. The column \<open>ai_summary\<close>
  is a \<open>Text\<close> column, so this commit raises and persists nothing, and the \<open>except\<close>
  block runs on the row as the first commit left it: either its commit persists the
  failed mark and the exception of the completing commit is raised again, or its commit
  raises and that exception leaves the task.
\<close>

definition rejected_commit ::
  "'a worker_scheme \<Rightarrow> store \<Rightarrow> int \<Rightarrow> support_request \<Rightarrow> event list \<Rightarrow>
     (exn + 'r) \<times> store \<times> event list" where
  "rejected_commit w db rid request tr =
     (case recommit w of
        Some e \<Rightarrow> (Inl e, db, tr)
      | None \<Rightarrow> mark_failed w db rid (Some request) StatementError tr)"

text \<open>\<open>process_support_request\<close>: what it returns or raises, the store afterwards, and
  its calls.\<close>

definition process_support_request ::
  "'a worker_scheme \<Rightarrow> store \<Rightarrow> int \<Rightarrow>
     (exn + (int \<times> string \<times> pyval) option) \<times> store \<times> event list" where
  "process_support_request w db rid =
     (case db rid of
        None \<Rightarrow> mark_failed w db rid None ValueError []
      | Some request \<Rightarrow>
          if processing_status request = ''completed'' then (Inr None, db, [])
          else
            (let request1 = stamp db rid (request\<lparr>processing_status := ''processing''\<rparr>)
                              (utcnow_processing w);
                 db1 = db(rid \<mapsto> request1);
                 tr1 = [Commit rid request1]
             in case classify_request (ai w) (subject request1) (description request1) of
                  Inl e \<Rightarrow> mark_failed w db1 rid (Some request1) e tr1
                | Inr ai_result \<Rightarrow>
                    (case res_summary ai_result of
                       VStr summary \<Rightarrow>
                         (let request2 = stamp db1 rid
                                (request1\<lparr>category := Some (res_category ai_result),
                                          ai_summary := Some summary,
                                          processed_at := Some (utcnow_processed w),
                                          processing_status := ''completed''\<rparr>)
                                (utcnow_completed w);
                              db2 = db1(rid \<mapsto> request2);
                              tr2 = tr1 @ [Commit rid request2];
                              ret = Inr (Some (rid, res_category ai_result, res_summary ai_result))
                          in if res_category ai_result = ''cancellation_request''
                             then (case delay_raises w of
                                     Some e \<Rightarrow> mark_failed w db2 rid (Some request2) e tr2
                                   | None \<Rightarrow> (ret, db2, tr2 @ [Delay rid]))
                             else (ret, db2, tr2))
                     | _ \<Rightarrow> rejected_commit w db1 rid request1 tr1)))"

text \<open>The worker that runs \<open>send_teams_notification\<close>: the notifier it constructs and the
  \<open>onupdate\<close> stamp of its commit.\<close>

record sender =
  teams :: notifier
  utcnow_notified :: datetime

definition send_teams_notification ::
  "'a sender_scheme \<Rightarrow> store \<Rightarrow> int \<Rightarrow>
     (exn + (int \<times> (int \<times> datetime) option) option) \<times> store \<times> event list" where
  "send_teams_notification w db rid =
     (case db rid of
        None \<Rightarrow> (Inl ValueError, db, [])
      | Some request \<Rightarrow>
          if notification_sent request = ''true'' then (Inr None, db, [])
          else
            (let sent = send_cancellation_alert (teams w) rid request;
                 request' = stamp db rid (request\<lparr>notification_sent := ''true''\<rparr>)
                              (utcnow_notified w)
             in (Inr (Some (rid, fst sent)), db(rid \<mapsto> request'),
                 snd sent @ [Commit rid request'])))"

text \<open>
  The task decorator: \<open>autoretry_for=(Exception,)\<close> with \<open>max_retries\<close> and
  \<open>countdown\<close>. Every exception of the model is an \<open>Exception\<close>; a run that raises
  is scheduled again after the countdown as long as the delivery's retry count is below
  \<open>max_retries\<close>, and fails for good otherwise.
\<close>

datatype 'r task_state = SUCCESS 'r | RETRY exn nat | FAILURE exn

definition autoretry :: "nat \<Rightarrow> nat \<Rightarrow> nat \<Rightarrow> exn + 'r \<Rightarrow> 'r task_state" where
  "autoretry max_retries countdown retries outcome =
     (case outcome of
        Inr r \<Rightarrow> SUCCESS r
      | Inl e \<Rightarrow> if retries < max_retries then RETRY e countdown else FAILURE e)"

definition process_support_request_task ::
  "nat \<Rightarrow> 'a worker_scheme \<Rightarrow> store \<Rightarrow> int \<Rightarrow>
     (int \<times> string \<times> pyval) option task_state \<times> store \<times> event list" where
  "process_support_request_task retries w db rid =
     (let run = process_support_request w db rid
      in (autoretry 3 60 retries (fst run), snd run))"

definition send_teams_notification_task ::
  "nat \<Rightarrow> 'a sender_scheme \<Rightarrow> store \<Rightarrow> int \<Rightarrow>
     (int \<times> (int \<times> datetime) option) option task_state \<times> store \<times> event list" where
  "send_teams_notification_task retries w db rid =
     (let run = send_teams_notification w db rid
      in (autoretry 3 30 retries (fst run), snd run))"

text \<open>A sequence of deliveries, one task run after the other on the same store.\<close>

datatype delivery = Process worker int | Notify sender int

fun deliver :: "store \<Rightarrow> delivery \<Rightarrow> store" where
  "deliver db (Process w rid) = fst (snd (process_support_request w db rid))"
| "deliver db (Notify w rid) = fst (snd (send_teams_notification w db rid))"

definition deliver_all :: "store \<Rightarrow> delivery list \<Rightarrow> store" where
  "deliver_all db ds = foldl deliver db ds"

section \<open>Rows written by a run, and predicates on rows and deliveries\<close>

text \<open>
  The rows that \<open>process_support_request\<close> commits, in order: the row marked as
  processing, the row with the category and the summary of the classification, and the
  row marked failed by the \<open>except\<close> block.
\<close>

definition row_processing ::
  "'a worker_scheme \<Rightarrow> store \<Rightarrow> int \<Rightarrow> support_request \<Rightarrow> support_request" where
  "row_processing w db rid request =
     stamp db rid (request\<lparr>processing_status := ''processing''\<rparr>) (utcnow_processing w)"

definition row_completed ::
  "'a worker_scheme \<Rightarrow> string \<Rightarrow> string \<Rightarrow> support_request \<Rightarrow> support_request" where
  "row_completed w cat summary r1 =
     r1\<lparr>category := Some cat, ai_summary := Some summary,
        processed_at := Some (utcnow_processed w), processing_status := ''completed'',
        updated_at := utcnow_completed w\<rparr>"

definition row_failed :: "'a worker_scheme \<Rightarrow> support_request \<Rightarrow> support_request" where
  "row_failed w r2 = r2\<lparr>processing_status := ''failed'', updated_at := utcnow_failed w\<rparr>"

text \<open>The value of \<open>result.get(key, default)\<close> on the items of a dict.\<close>

definition lookup_default :: "(string \<times> pyval) list \<Rightarrow> string \<Rightarrow> pyval \<Rightarrow> pyval" where
  "lookup_default items key dflt = (case map_of items key of Some v \<Rightarrow> v | None \<Rightarrow> dflt)"

text \<open>The relation between \<open>processed_at\<close> and the status that the data model states.\<close>

definition processed_iff_completed :: "support_request \<Rightarrow> bool" where
  "processed_iff_completed r =
     ((processed_at r \<noteq> None) = (processing_status r = ''completed''))"

text \<open>A delivery in which the broker takes the notification task, should one be sent.\<close>

definition enqueue_accepted :: "delivery \<Rightarrow> bool" where
  "enqueue_accepted d =
     (case d of Process w rid \<Rightarrow> delay_raises w = None | Notify w rid \<Rightarrow> True)"

section \<open>Sample collaborators\<close>

text \<open>A classifier whose remote service is unreachable: the probe cannot connect.\<close>

definition unreachable :: classifier where
  "unreachable =
     \<lparr>model = ''llama3.1:8b'',
      health_reply = NetworkError,
      generate_reply = NetworkError,
      json_loads = (\<lambda>s. Inl JSONDecodeError),
      re_findall = (\<lambda>s. []),
      utcnow_validate = 0\<rparr>"


text \<open>A classifier whose remote service answers with a text that holds no JSON.\<close>

definition chatty :: classifier where
  "chatty =
     \<lparr>model = ''llama3.1:8b'',
      health_reply = Response 200 (),
      generate_reply = Response 200 (Inr (VDict [(''response'', VStr ''Sorry, I cannot help'')])),
      json_loads = (\<lambda>s. Inl JSONDecodeError),
      re_findall = (\<lambda>s. []),
      utcnow_validate = 115\<rparr>"

definition billing_answer :: "rat \<Rightarrow> pyval" where
  "billing_answer q =
     VDict [(''category'', VStr ''billing''),
            (''summary'', VStr ''dup charge''),
            (''confidence'', VFloat (Finite q))]"


text \<open>A freshly created request, as the ingestion boundary stores it, under the id 1.\<close>

definition sample_request :: support_request where
  "sample_request =
     \<lparr>customer_name = ''Ada'',
      email = ''ada@example.org'',
      subject = ''Cancel my subscription'',
      description = ''stop billing me'',
      category = None,
      ai_summary = None,
      processing_status = ''pending'',
      notification_sent = ''false'',
      created_at = 100,
      updated_at = 100,
      processed_at = None\<rparr>"

definition sample_store :: store where
  "sample_store = Map.empty(1 \<mapsto> sample_request)"

text \<open>The same request after a completed run, and after its notification.\<close>

definition completed_request :: support_request where
  "completed_request =
     sample_request\<lparr>category := Some ''cancellation_request'',
                    ai_summary := Some ''wants to cancel'',
                    processing_status := ''completed'',
                    updated_at := 121,
                    processed_at := Some 120\<rparr>"

definition notified_request :: support_request where
  "notified_request = completed_request\<lparr>notification_sent := ''true'', updated_at := 201\<rparr>"

text \<open>Workers: one with the remote service down, one whose broker also refuses the
  notification task, one with a later clock.\<close>

definition offline_worker :: worker where
  "offline_worker =
     \<lparr>ai = unreachable,
      utcnow_processing = 110,
      utcnow_processed = 120,
      utcnow_completed = 121,
      utcnow_failed = 130,
      delay_raises = None,
      recommit = None\<rparr>"

definition broker_down_worker :: worker where
  "broker_down_worker = offline_worker\<lparr>delay_raises := Some OperationalError\<rparr>"

definition later_worker :: worker where
  "later_worker =
     offline_worker\<lparr>utcnow_processing := 190, utcnow_processed := 200,
                    utcnow_completed := 201, utcnow_failed := 210\<rparr>"


text \<open>Senders: no webhook configured, a webhook that answers 500, one that answers 200.\<close>

definition unconfigured_sender :: sender where
  "unconfigured_sender =
     \<lparr>teams = \<lparr>webhook_url = None, post_reply = NetworkError, utcnow_sent = 200\<rparr>,
      utcnow_notified = 201\<rparr>"

definition rejected_sender :: sender where
  "rejected_sender =
     \<lparr>teams = \<lparr>webhook_url = Some ''https://hooks.example.org/teams'',
               post_reply = Response 500 (), utcnow_sent = 200\<rparr>,
      utcnow_notified = 201\<rparr>"

definition accepted_sender :: sender where
  "accepted_sender =
     \<lparr>teams = \<lparr>webhook_url = Some ''https://hooks.example.org/teams'',
               post_reply = Response 200 (), utcnow_sent = 200\<rparr>,
      utcnow_notified = 201\<rparr>"

text \<open>Stores holding the completed and the notified request.\<close>

definition completed_store :: store where
  "completed_store = Map.empty(1 \<mapsto> completed_request)"

definition notified_store :: store where
  "notified_store = Map.empty(1 \<mapsto> notified_request)"

text \<open>An answer of the model with an unknown category, a summary of 600 characters and
  a confidence of 1.5.\<close>

definition clamped_answer :: pyval where
  "clamped_answer =
     VDict [(''category'', VStr ''not_a_real_category''),
            (''summary'', VStr (replicate 600 CHR ''x'')),
            (''confidence'', VFloat (Finite (15 / 10)))]"

section \<open>Properties of the classification engine\<close>

lemma sample_classify:
  "classify_request unreachable ''Cancel my subscription'' ''stop billing me'' =
     Inr \<lparr>res_category = ''cancellation_request'',
          res_summary = VStr ''Fallback classification: cancellation_request (keyword: cancel)'',
          res_confidence = VFloat (Finite (6 / 10)),
          res_method = ''fallback'',
          res_model = None,
          res_timestamp = None\<rparr>"
  by (simp add: classify_request_def check_ollama_health_def unreachable_def
      fallback_classify_def fallback_categories_def lower_def lower_char_def
      char_of_def bit_simps)



text \<open>
  Claim C7. With the remote service unreachable, classifying the subject
  "Cancel my subscription" with the description "stop billing me" gives the category
  cancellation_request by the fallback method with confidence 0.6: the text holds the
  keywords cancel, stop and billing, and the first entry of the table decides.
\<close>

theorem fallback_cancel_subscription:
  "classify_request unreachable ''Cancel my subscription'' ''stop billing me'' =
     Inr \<lparr>res_category = ''cancellation_request'',
          res_summary = VStr ''Fallback classification: cancellation_request (keyword: cancel)'',
          res_confidence = VFloat (Finite (6 / 10)),
          res_method = ''fallback'',
          res_model = None,
          res_timestamp = None\<rparr>
   \<and> contains (lower ''Cancel my subscription stop billing me'') ''cancel''
   \<and> contains (lower ''Cancel my subscription stop billing me'') ''stop''
   \<and> contains (lower ''Cancel my subscription stop billing me'') ''billing''"
  by (simp add: classify_request_def check_ollama_health_def unreachable_def
      fallback_classify_def fallback_categories_def lower_def lower_char_def
      char_of_def bit_simps)

lemma classify_request_returns: "\<exists>r. classify_request self s d = Inr r"
  by (simp add: classify_request_def split: sum.split exn.split)

lemma classify_request_fallback:
  assumes "health_reply self = NetworkError \<or> health_reply self = Timeout \<or>
    (\<exists>c b. health_reply self = Response c b \<and> c \<noteq> 200) \<or>
    generate_reply self = NetworkError \<or> generate_reply self = Timeout \<or>
    (\<exists>c b. generate_reply self = Response c b \<and> (c \<noteq> 200 \<or> (\<exists>e. b = Inl e))) \<or>
    (\<exists>c v. generate_reply self = Response c (Inr v) \<and> (\<forall>items. v \<noteq> VDict items)) \<or>
    (\<exists>c items v. generate_reply self = Response c (Inr (VDict items)) \<and>
       map_of items ''response'' = Some v \<and> (\<forall>t. v \<noteq> VStr t))"
  shows "classify_request self s d = Inr (fallback_classify s d)"
proof (cases "check_ollama_health self")
  case False
  then show ?thesis by (simp add: classify_request_def)
next
  case True
  then have healthy: "\<exists>b. health_reply self = Response 200 b"
    by (cases "health_reply self") (simp_all add: check_ollama_health_def)
  have "classify_remote self s d = Inr (fallback_classify s d) \<or> (\<exists>e. classify_remote self s d = Inl e)"
    using assms healthy
  proof (elim disjE exE conjE)
    fix c v
    assume g: "generate_reply self = Response c (Inr v)" and nd: "\<forall>items. v \<noteq> VDict items"
    have "dict_get v ''response'' (VStr []) = Inl AttributeError"
      using nd by (cases v) (simp_all add: dict_get_def)
    with g show ?thesis by (simp add: classify_remote_def)
  next
    fix c items v
    assume g: "generate_reply self = Response c (Inr (VDict items))"
      and r: "map_of items ''response'' = Some v" and nt: "\<forall>t. v \<noteq> VStr t"
    have "parse_ai_response self v = Inl AttributeError"
      using nt by (cases v) (simp_all add: parse_ai_response_def)
    with g r show ?thesis by (simp add: classify_remote_def dict_get_def)
  qed (auto simp: classify_remote_def)
  then show ?thesis
    using True by (auto simp: classify_request_def split: exn.split)
qed

lemma first_decodable_none:
  "\<forall>m \<in> set ms. loads m = Inl JSONDecodeError \<Longrightarrow>
   first_decodable loads ms =
     Inr (VDict [(''category'', VStr ''general_inquiry''),
                 (''summary'', VStr ''AI parsing failed - manual review needed''),
                 (''confidence'', VFloat (Finite (3 / 10)))])"
  by (induction ms) simp_all

lemma classify_request_default:
  assumes h: "health_reply self = Response 200 b"
    and g: "generate_reply self = Response 200 (Inr (VDict items))"
    and r: "lookup_default items ''response'' (VStr []) = VStr t"
    and j: "json_loads self (strip t) = Inl JSONDecodeError"
    and m: "\<forall>m \<in> set (re_findall self t). json_loads self m = Inl JSONDecodeError"
  shows "classify_request self s d =
     Inr \<lparr>res_category = ''general_inquiry'',
          res_summary = VStr ''AI parsing failed - manual review needed'',
          res_confidence = VFloat (Finite (3 / 10)),
          res_method = ''ollama_ai'',
          res_model = Some (model self),
          res_timestamp = Some (utcnow_validate self)\<rparr>"
proof -
  have p: "parse_ai_response self (VStr t) =
     Inr (VDict [(''category'', VStr ''general_inquiry''),
                 (''summary'', VStr ''AI parsing failed - manual review needed''),
                 (''confidence'', VFloat (Finite (3 / 10)))])"
    using j first_decodable_none [OF m] by (simp add: parse_ai_response_def)
  have v: "validate_classification_result self
       (VDict [(''category'', VStr ''general_inquiry''),
                 (''summary'', VStr ''AI parsing failed - manual review needed''),
                 (''confidence'', VFloat (Finite (3 / 10)))]) s d =
     Inr \<lparr>res_category = ''general_inquiry'',
          res_summary = VStr ''AI parsing failed - manual review needed'',
          res_confidence = VFloat (Finite (3 / 10)),
          res_method = ''ollama_ai'',
          res_model = Some (model self),
          res_timestamp = Some (utcnow_validate self)\<rparr>"
    by (simp add: validate_classification_result_def dict_get_def clean_summary_def py_len_def
        clean_category_def valid_categories_def clean_confidence_def is_int_or_float_def
        lt_zero_def gt_one_def)
  have d: "dict_get (VDict items) ''response'' (VStr []) = Inr (VStr t)"
    using r by (simp add: dict_get_def lookup_default_def)
  have "classify_remote self s d =
     Inr \<lparr>res_category = ''general_inquiry'',
          res_summary = VStr ''AI parsing failed - manual review needed'',
          res_confidence = VFloat (Finite (3 / 10)),
          res_method = ''ollama_ai'',
          res_model = Some (model self),
          res_timestamp = Some (utcnow_validate self)\<rparr>"
    by (simp add: classify_remote_def g d p v)
  then show ?thesis
    using h by (simp add: classify_request_def check_ollama_health_def)
qed

text \<open>
  Claim C6, as the code has it. Whatever the remote service does and whatever the subject
  and description are, \<open>classify_request\<close> raises nothing and returns a result. When the
  health probe fails (transport error, timeout or a status other than 200), when the
  generate call fails in the transport, times out or answers with a status other than 200,
  and when its body does not decode, decodes to something that is no object, or holds a
  response field that is no text, the result is the one of the fallback path. When the
  probe and the call answer 200 and the response text of the body (the empty text when the
  field is absent) holds no JSON that decodes, neither as a whole nor in any of its
  matches, the result is not the one of the fallback path: it is the default result
  (general_inquiry, "AI parsing failed - manual review needed", 0.3) with the tags of the
  validation.
\<close>

theorem classify_never_raises:
  "(\<exists>r. classify_request self s d = Inr r) \<and>
   (health_reply self = NetworkError \<or> health_reply self = Timeout \<or>
    (\<exists>c b. health_reply self = Response c b \<and> c \<noteq> 200) \<or>
    generate_reply self = NetworkError \<or> generate_reply self = Timeout \<or>
    (\<exists>c b. generate_reply self = Response c b \<and> (c \<noteq> 200 \<or> (\<exists>e. b = Inl e))) \<or>
    (\<exists>c v. generate_reply self = Response c (Inr v) \<and> (\<forall>items. v \<noteq> VDict items)) \<or>
    (\<exists>c items v. generate_reply self = Response c (Inr (VDict items)) \<and>
       map_of items ''response'' = Some v \<and> (\<forall>t. v \<noteq> VStr t))
    \<longrightarrow> classify_request self s d = Inr (fallback_classify s d)) \<and>
   ((\<exists>b. health_reply self = Response 200 b) \<and>
    (\<exists>items t. generate_reply self = Response 200 (Inr (VDict items)) \<and>
       lookup_default items ''response'' (VStr []) = VStr t \<and>
       json_loads self (strip t) = Inl JSONDecodeError \<and>
       (\<forall>m \<in> set (re_findall self t). json_loads self m = Inl JSONDecodeError))
    \<longrightarrow> classify_request self s d =
          Inr \<lparr>res_category = ''general_inquiry'',
               res_summary = VStr ''AI parsing failed - manual review needed'',
               res_confidence = VFloat (Finite (3 / 10)),
               res_method = ''ollama_ai'',
               res_model = Some (model self),
               res_timestamp = Some (utcnow_validate self)\<rparr>)"
proof (intro conjI impI)
  show "\<exists>r. classify_request self s d = Inr r" by (rule classify_request_returns)
next
  assume "health_reply self = NetworkError \<or> health_reply self = Timeout \<or>
    (\<exists>c b. health_reply self = Response c b \<and> c \<noteq> 200) \<or>
    generate_reply self = NetworkError \<or> generate_reply self = Timeout \<or>
    (\<exists>c b. generate_reply self = Response c b \<and> (c \<noteq> 200 \<or> (\<exists>e. b = Inl e))) \<or>
    (\<exists>c v. generate_reply self = Response c (Inr v) \<and> (\<forall>items. v \<noteq> VDict items)) \<or>
    (\<exists>c items v. generate_reply self = Response c (Inr (VDict items)) \<and>
       map_of items ''response'' = Some v \<and> (\<forall>t. v \<noteq> VStr t))"
  then show "classify_request self s d = Inr (fallback_classify s d)"
    by (rule classify_request_fallback)
next
  assume a: "(\<exists>b. health_reply self = Response 200 b) \<and>
    (\<exists>items t. generate_reply self = Response 200 (Inr (VDict items)) \<and>
       lookup_default items ''response'' (VStr []) = VStr t \<and>
       json_loads self (strip t) = Inl JSONDecodeError \<and>
       (\<forall>m \<in> set (re_findall self t). json_loads self m = Inl JSONDecodeError))"
  from a obtain b where h: "health_reply self = Response 200 b" by (elim conjE exE)
  from a obtain items t where g: "generate_reply self = Response 200 (Inr (VDict items))"
    and r: "lookup_default items ''response'' (VStr []) = VStr t"
    and j: "json_loads self (strip t) = Inl JSONDecodeError"
    and m: "\<forall>m \<in> set (re_findall self t). json_loads self m = Inl JSONDecodeError"
    by (elim conjE exE)
  show "classify_request self s d =
          Inr \<lparr>res_category = ''general_inquiry'',
               res_summary = VStr ''AI parsing failed - manual review needed'',
               res_confidence = VFloat (Finite (3 / 10)),
               res_method = ''ollama_ai'',
               res_model = Some (model self),
               res_timestamp = Some (utcnow_validate self)\<rparr>"
    by (rule classify_request_default [OF h g r j m])
qed

text \<open>
  The remote service answers 200 with a response text that holds no JSON. The request asks
  for a cancellation, and the fallback path would say so; the result is the default
  result of the parsing, tagged "ollama_ai".
\<close>

theorem unparsed_answer_is_not_fallback:
  "classify_request chatty ''Cancel my subscription'' ''stop billing me'' =
     Inr \<lparr>res_category = ''general_inquiry'',
          res_summary = VStr ''AI parsing failed - manual review needed'',
          res_confidence = VFloat (Finite (3 / 10)),
          res_method = ''ollama_ai'',
          res_model = Some ''llama3.1:8b'',
          res_timestamp = Some 115\<rparr>
   \<and> fallback_classify ''Cancel my subscription'' ''stop billing me'' =
     \<lparr>res_category = ''cancellation_request'',
      res_summary = VStr ''Fallback classification: cancellation_request (keyword: cancel)'',
      res_confidence = VFloat (Finite (6 / 10)),
      res_method = ''fallback'',
      res_model = None,
      res_timestamp = None\<rparr>"
  by (simp add: classify_request_def check_ollama_health_def chatty_def classify_remote_def
      dict_get_def parse_ai_response_def validate_classification_result_def
      clean_summary_def py_len_def clean_category_def valid_categories_def clean_confidence_def
      is_int_or_float_def lt_zero_def gt_one_def
      fallback_classify_def fallback_categories_def lower_def lower_char_def
      char_of_def bit_simps)

text \<open>The theorem with the probe unable to connect, and with the answer that holds no JSON.\<close>

theorem classify_never_raises_witness:
  "health_reply unreachable = NetworkError
   \<and> classify_request unreachable ''How do I upgrade?'' ''curious about plans''
       = Inr (fallback_classify ''How do I upgrade?'' ''curious about plans'')
   \<and> health_reply chatty = Response 200 ()
   \<and> generate_reply chatty = Response 200 (Inr (VDict [(''response'', VStr ''Sorry, I cannot help'')]))
   \<and> json_loads chatty (strip ''Sorry, I cannot help'') = Inl JSONDecodeError
   \<and> re_findall chatty ''Sorry, I cannot help'' = []
   \<and> classify_request chatty ''How do I upgrade?'' ''curious about plans''
       = Inr \<lparr>res_category = ''general_inquiry'',
               res_summary = VStr ''AI parsing failed - manual review needed'',
               res_confidence = VFloat (Finite (3 / 10)),
               res_method = ''ollama_ai'',
               res_model = Some (model chatty),
               res_timestamp = Some (utcnow_validate chatty)\<rparr>"
proof -
  note T = classify_never_raises [of unreachable "''How do I upgrade?''" "''curious about plans''"]
  note U = classify_never_raises [of chatty "''How do I upgrade?''" "''curious about plans''"]
  have a: "health_reply unreachable = NetworkError" by (simp add: unreachable_def)
  have b: "health_reply chatty = Response 200 ()"
    "generate_reply chatty = Response 200 (Inr (VDict [(''response'', VStr ''Sorry, I cannot help'')]))"
    "json_loads chatty (strip ''Sorry, I cannot help'') = Inl JSONDecodeError"
    "re_findall chatty ''Sorry, I cannot help'' = []"
    by (simp_all add: chatty_def)
  have c: "lookup_default [(''response'', VStr ''Sorry, I cannot help'')] ''response'' (VStr [])
      = VStr ''Sorry, I cannot help''"
    by (simp add: lookup_default_def)
  have d: "\<forall>m \<in> set (re_findall chatty ''Sorry, I cannot help''). json_loads chatty m = Inl JSONDecodeError"
    using b(4) by simp
  have e: "classify_request unreachable ''How do I upgrade?'' ''curious about plans''
       = Inr (fallback_classify ''How do I upgrade?'' ''curious about plans'')"
    by (rule T [THEN conjunct2, THEN conjunct1, THEN mp, OF disjI1 [OF a]])
  have f: "classify_request chatty ''How do I upgrade?'' ''curious about plans''
       = Inr \<lparr>res_category = ''general_inquiry'',
               res_summary = VStr ''AI parsing failed - manual review needed'',
               res_confidence = VFloat (Finite (3 / 10)),
               res_method = ''ollama_ai'',
               res_model = Some (model chatty),
               res_timestamp = Some (utcnow_validate chatty)\<rparr>"
  proof -
    have hyp: "(\<exists>b. health_reply chatty = Response 200 b) \<and>
      (\<exists>items t. generate_reply chatty = Response 200 (Inr (VDict items)) \<and>
         lookup_default items ''response'' (VStr []) = VStr t \<and>
         json_loads chatty (strip t) = Inl JSONDecodeError \<and>
         (\<forall>m \<in> set (re_findall chatty t). json_loads chatty m = Inl JSONDecodeError))"
      using b(1,2,3) c d by (intro conjI exI)
    show ?thesis by (rule U [THEN conjunct2, THEN conjunct2, THEN mp, OF hyp])
  qed
  show ?thesis using a b e f by (intro conjI)
qed

subsection \<open>Validation\<close>

lemma validate_text_summary:
  assumes "lookup_default items ''summary'' (VStr ''No summary provided'') = VStr t"
  shows "validate_classification_result self (VDict items) s d =
     Inr \<lparr>res_category = clean_category (lookup_default items ''category'' (VStr ''general_inquiry'')),
          res_summary = VStr (if length t > 500 then take 497 t @ ''...'' else t),
          res_confidence = clean_confidence (lookup_default items ''confidence'' (VFloat (Finite (7 / 10)))),
          res_method = ''ollama_ai'',
          res_model = Some (model self),
          res_timestamp = Some (utcnow_validate self)\<rparr>"
  using assms
  by (simp add: validate_classification_result_def dict_get_def lookup_default_def [symmetric]
      clean_summary_def py_len_def)

lemma clean_category_valid: "clean_category v \<in> set valid_categories"
  by (cases v) (simp_all add: clean_category_def valid_categories_def)

lemma clean_category_text:
  "clean_category (VStr c) = (if c \<in> set valid_categories then c else ''general_inquiry'')"
  by (simp add: clean_category_def)

lemma clean_category_other: "(\<forall>c. v \<noteq> VStr c) \<Longrightarrow> clean_category v = ''general_inquiry''"
  by (cases v) (simp_all add: clean_category_def)

lemma clean_confidence_cases:
  "clean_confidence (VFloat (Finite q)) = VFloat (Finite (if 0 \<le> q \<and> q \<le> 1 then q else 7 / 10))"
  "clean_confidence (VInt i) = (if 0 \<le> i \<and> i \<le> 1 then VInt i else VFloat (Finite (7 / 10)))"
  "clean_confidence (VBool b) = VBool b"
  "clean_confidence (VFloat NaN) = VFloat NaN"
  "clean_confidence (VFloat PosInf) = VFloat (Finite (7 / 10))"
  "clean_confidence (VFloat NegInf) = VFloat (Finite (7 / 10))"
  "clean_confidence VNone = VFloat (Finite (7 / 10))"
  "clean_confidence (VStr t) = VFloat (Finite (7 / 10))"
  "clean_confidence (VList l) = VFloat (Finite (7 / 10))"
  "clean_confidence (VDict kvs) = VFloat (Finite (7 / 10))"
  by (auto simp: clean_confidence_def is_int_or_float_def lt_zero_def gt_one_def)

lemma default_in_range:
  "(\<exists>q. VFloat (Finite (7 / 10)) = VFloat (Finite q) \<and> 0 \<le> q \<and> q \<le> 1) \<or>
   (\<exists>i. VFloat (Finite (7 / 10)) = VInt i \<and> 0 \<le> i \<and> i \<le> 1)"
  by (rule disjI1, rule exI [of _ "7 / 10"]) simp

lemma confidence_in_range:
  assumes "\<And>b. v \<noteq> VBool b" and "v \<noteq> VFloat NaN"
  shows "(\<exists>q. clean_confidence v = VFloat (Finite q) \<and> 0 \<le> q \<and> q \<le> 1) \<or>
        (\<exists>i. clean_confidence v = VInt i \<and> 0 \<le> i \<and> i \<le> 1)"
proof (cases v)
  case VNone
  then show ?thesis using default_in_range by (simp add: clean_confidence_cases)
next
  case (VBool b)
  with assms(1) show ?thesis by blast
next
  case (VInt i)
  show ?thesis
  proof (cases "0 \<le> i \<and> i \<le> 1")
    case True
    with VInt show ?thesis by (simp add: clean_confidence_cases)
  next
    case False
    with VInt show ?thesis using default_in_range by (simp add: clean_confidence_cases)
  qed
next
  case (VFloat f)
  show ?thesis
  proof (cases f)
    case (Finite q)
    show ?thesis
    proof (cases "0 \<le> q \<and> q \<le> 1")
      case True
      with VFloat Finite show ?thesis by (simp add: clean_confidence_cases)
    next
      case False
      with VFloat Finite show ?thesis using default_in_range by (simp add: clean_confidence_cases)
    qed
  next
    case PosInf
    with VFloat show ?thesis using default_in_range by (simp add: clean_confidence_cases)
  next
    case NegInf
    with VFloat show ?thesis using default_in_range by (simp add: clean_confidence_cases)
  next
    case NaN
    with VFloat assms(2) show ?thesis by blast
  qed
next
  case (VStr t)
  then show ?thesis using default_in_range by (simp add: clean_confidence_cases)
next
  case (VList l)
  then show ?thesis using default_in_range by (simp add: clean_confidence_cases)
next
  case (VDict kvs)
  then show ?thesis using default_in_range by (simp add: clean_confidence_cases)
qed

text \<open>
  Claim C8, as the code has it. For every parsed result dict whose summary is a text or is
  absent and whose confidence is neither a boolean nor NaN, the validation returns a
  result in which: the category is the given one when it is a text of the valid set and
  general_inquiry otherwise; a summary longer than 500 characters is cut to its first 497
  characters followed by "...", 500 characters in all, and a shorter one is kept; a
  confidence that is an integer or a finite float in [0,1] is kept, and one that is
  outside [0,1], no number or absent becomes 0.7, so that the confidence of the result is
  always a number in [0,1]; the method is "ollama_ai", with the model name and a
  timestamp.
\<close>

theorem validation_cleans_result:
  assumes "\<forall>v. map_of items ''summary'' = Some v \<longrightarrow> (\<exists>t. v = VStr t)"
    and nb: "\<forall>b. map_of items ''confidence'' \<noteq> Some (VBool b)"
    and nn: "map_of items ''confidence'' \<noteq> Some (VFloat NaN)"
  shows "\<exists>r. validate_classification_result self (VDict items) s d = Inr r
    \<and> res_method r = ''ollama_ai'' \<and> res_model r = Some (model self)
    \<and> res_timestamp r = Some (utcnow_validate self)
    \<and> res_category r \<in> set valid_categories
    \<and> (\<forall>c. map_of items ''category'' = Some (VStr c) \<longrightarrow>
          res_category r = (if c \<in> set valid_categories then c else ''general_inquiry''))
    \<and> ((\<forall>c. map_of items ''category'' \<noteq> Some (VStr c)) \<longrightarrow> res_category r = ''general_inquiry'')
    \<and> (\<forall>t. map_of items ''summary'' = Some (VStr t) \<longrightarrow>
          res_summary r = VStr (if length t > 500 then take 497 t @ ''...'' else t) \<and>
          (length t > 500 \<longrightarrow> length (take 497 t @ ''...'') = 500))
    \<and> (map_of items ''summary'' = None \<longrightarrow> res_summary r = VStr ''No summary provided'')
    \<and> (\<forall>q. map_of items ''confidence'' = Some (VFloat (Finite q)) \<longrightarrow>
          res_confidence r = VFloat (Finite (if 0 \<le> q \<and> q \<le> 1 then q else 7 / 10)))
    \<and> (\<forall>i. map_of items ''confidence'' = Some (VInt i) \<longrightarrow>
          res_confidence r = (if 0 \<le> i \<and> i \<le> 1 then VInt i else VFloat (Finite (7 / 10))))
    \<and> (map_of items ''confidence'' \<in> {None, Some VNone, Some (VFloat PosInf), Some (VFloat NegInf)} \<or>
        (\<exists>t. map_of items ''confidence'' = Some (VStr t)) \<or>
        (\<exists>l. map_of items ''confidence'' = Some (VList l)) \<or>
        (\<exists>l. map_of items ''confidence'' = Some (VDict l)) \<longrightarrow>
          res_confidence r = VFloat (Finite (7 / 10)))
    \<and> ((\<exists>q. res_confidence r = VFloat (Finite q) \<and> 0 \<le> q \<and> q \<le> 1) \<or>
        (\<exists>i. res_confidence r = VInt i \<and> 0 \<le> i \<and> i \<le> 1))"
proof -
  obtain t where t: "lookup_default items ''summary'' (VStr ''No summary provided'') = VStr t"
    using assms(1) by (cases "map_of items ''summary''") (auto simp: lookup_default_def)
  let ?cat = "lookup_default items ''category'' (VStr ''general_inquiry'')"
  let ?conf = "lookup_default items ''confidence'' (VFloat (Finite (7 / 10)))"
  let ?r = "\<lparr>res_category = clean_category ?cat,
          res_summary = VStr (if length t > 500 then take 497 t @ ''...'' else t),
          res_confidence = clean_confidence ?conf,
          res_method = ''ollama_ai'',
          res_model = Some (model self),
          res_timestamp = Some (utcnow_validate self)\<rparr>"
  have run: "validate_classification_result self (VDict items) s d = Inr ?r"
    by (rule validate_text_summary [OF t])
  have c1: "res_category ?r \<in> set valid_categories" by (simp add: clean_category_valid)
  have c2: "\<forall>c. map_of items ''category'' = Some (VStr c) \<longrightarrow>
          res_category ?r = (if c \<in> set valid_categories then c else ''general_inquiry'')"
    by (simp add: lookup_default_def clean_category_text)
  have c3: "(\<forall>c. map_of items ''category'' \<noteq> Some (VStr c)) \<longrightarrow> res_category ?r = ''general_inquiry''"
  proof
    assume a: "\<forall>c. map_of items ''category'' \<noteq> Some (VStr c)"
    have dflt: "?cat = VStr c \<Longrightarrow> c = ''general_inquiry''" for c
      using a by (cases "map_of items ''category''") (auto simp: lookup_default_def)
    have "clean_category ?cat = ''general_inquiry''"
    proof (cases "\<exists>c. ?cat = VStr c")
      case True
      then obtain c where c: "?cat = VStr c" by blast
      with dflt have "c = ''general_inquiry''" by blast
      with c show ?thesis by (simp add: clean_category_text)
    next
      case False
      then show ?thesis by (simp add: clean_category_other)
    qed
    then show "res_category ?r = ''general_inquiry''" by simp
  qed
  have s1: "\<forall>u. map_of items ''summary'' = Some (VStr u) \<longrightarrow>
          res_summary ?r = VStr (if length u > 500 then take 497 u @ ''...'' else u) \<and>
          (length u > 500 \<longrightarrow> length (take 497 u @ ''...'') = 500)"
    using t by (auto simp: lookup_default_def)
  have s2: "map_of items ''summary'' = None \<longrightarrow> res_summary ?r = VStr ''No summary provided''"
  proof
    assume "map_of items ''summary'' = None"
    with t have "t = ''No summary provided''" by (simp add: lookup_default_def)
    then show "res_summary ?r = VStr ''No summary provided''" by simp
  qed
  have k1: "\<forall>q. map_of items ''confidence'' = Some (VFloat (Finite q)) \<longrightarrow>
          res_confidence ?r = VFloat (Finite (if 0 \<le> q \<and> q \<le> 1 then q else 7 / 10))"
    by (simp add: lookup_default_def clean_confidence_cases)
  have k2: "\<forall>i. map_of items ''confidence'' = Some (VInt i) \<longrightarrow>
          res_confidence ?r = (if 0 \<le> i \<and> i \<le> 1 then VInt i else VFloat (Finite (7 / 10)))"
    by (simp add: lookup_default_def clean_confidence_cases)
  have nb': "?conf \<noteq> VBool b" for b
    using nb by (cases "map_of items ''confidence''") (auto simp: lookup_default_def)
  have nn': "?conf \<noteq> VFloat NaN"
    using nn by (cases "map_of items ''confidence''") (auto simp: lookup_default_def)
  have k6: "(\<exists>q. res_confidence ?r = VFloat (Finite q) \<and> 0 \<le> q \<and> q \<le> 1) \<or>
        (\<exists>i. res_confidence ?r = VInt i \<and> 0 \<le> i \<and> i \<le> 1)"
    using nb' nn' by (simp add: confidence_in_range)
  have k5: "map_of items ''confidence'' \<in> {None, Some VNone, Some (VFloat PosInf), Some (VFloat NegInf)} \<or>
        (\<exists>t. map_of items ''confidence'' = Some (VStr t)) \<or>
        (\<exists>l. map_of items ''confidence'' = Some (VList l)) \<or>
        (\<exists>l. map_of items ''confidence'' = Some (VDict l)) \<longrightarrow>
          res_confidence ?r = VFloat (Finite (7 / 10))"
    by (auto simp: lookup_default_def clean_confidence_cases)
  have tags: "res_method ?r = ''ollama_ai''" "res_model ?r = Some (model self)"
    "res_timestamp ?r = Some (utcnow_validate self)" by simp_all
  show ?thesis
    apply (rule exI [of _ ?r])
    using run tags c1 c2 c3 s1 s2 k1 k2 k5 k6 by (simp only: simp_thms)
qed

text \<open>
  The method tag is "ollama_ai", not "remote_ai". A summary that has no length, here the
  number 5, makes the validation raise. The confidence \<open>True\<close> and the confidence NaN
  pass both comparisons and stay in the result.
\<close>

theorem validation_tags_ollama_ai:
  "validate_classification_result unreachable (billing_answer (9 / 10)) [] [] =
     Inr \<lparr>res_category = ''billing'', res_summary = VStr ''dup charge'',
          res_confidence = VFloat (Finite (9 / 10)), res_method = ''ollama_ai'',
          res_model = Some ''llama3.1:8b'', res_timestamp = Some 0\<rparr>
   \<and> ''ollama_ai'' \<noteq> ''remote_ai''
   \<and> validate_classification_result unreachable (VDict [(''summary'', VInt 5)]) [] [] = Inl TypeError
   \<and> validate_classification_result unreachable (VDict [(''confidence'', VBool True)]) [] [] =
     Inr \<lparr>res_category = ''general_inquiry'', res_summary = VStr ''No summary provided'',
          res_confidence = VBool True, res_method = ''ollama_ai'',
          res_model = Some ''llama3.1:8b'', res_timestamp = Some 0\<rparr>
   \<and> validate_classification_result unreachable (VDict [(''confidence'', VFloat NaN)]) [] [] =
     Inr \<lparr>res_category = ''general_inquiry'', res_summary = VStr ''No summary provided'',
          res_confidence = VFloat NaN, res_method = ''ollama_ai'',
          res_model = Some ''llama3.1:8b'', res_timestamp = Some 0\<rparr>"
  by (simp add: validate_classification_result_def billing_answer_def unreachable_def dict_get_def
      clean_summary_def py_len_def clean_category_def valid_categories_def clean_confidence_def
      is_int_or_float_def lt_zero_def gt_one_def)

text \<open>The theorem on an answer with an unknown category, a summary of 600 characters and
  the confidence 1.5.\<close>

theorem validation_cleans_result_witness:
  "map_of [(''category'', VStr ''not_a_real_category''),
           (''summary'', VStr (replicate 600 CHR ''x'')),
           (''confidence'', VFloat (Finite (15 / 10)))] ''summary''
     = Some (VStr (replicate 600 CHR ''x''))
   \<and> map_of [(''category'', VStr ''not_a_real_category''),
           (''summary'', VStr (replicate 600 CHR ''x'')),
           (''confidence'', VFloat (Finite (15 / 10)))] ''confidence''
     = Some (VFloat (Finite (15 / 10)))
   \<and> (\<exists>r. validate_classification_result unreachable clamped_answer [] [] = Inr r
        \<and> res_category r = ''general_inquiry''
        \<and> res_summary r = VStr (replicate 497 CHR ''x'' @ ''...'')
        \<and> length (replicate 497 CHR ''x'' @ ''...'') = 500
        \<and> res_confidence r = VFloat (Finite (7 / 10))
        \<and> res_method r = ''ollama_ai'')"
proof -
  let ?items = "[(''category'', VStr ''not_a_real_category''),
           (''summary'', VStr (replicate 600 CHR ''x'')),
           (''confidence'', VFloat (Finite (15 / 10)))]"
  have s: "map_of ?items ''summary'' = Some (VStr (replicate 600 CHR ''x''))" by simp
  have c: "map_of ?items ''category'' = Some (VStr ''not_a_real_category'')" by simp
  have k: "map_of ?items ''confidence'' = Some (VFloat (Finite (15 / 10)))" by simp
  have h: "\<forall>v. map_of ?items ''summary'' = Some v \<longrightarrow> (\<exists>t. v = VStr t)" by simp
  have nb: "\<forall>b. map_of ?items ''confidence'' \<noteq> Some (VBool b)" by simp
  have nn: "map_of ?items ''confidence'' \<noteq> Some (VFloat NaN)" by simp
  have n: "''not_a_real_category'' \<notin> set valid_categories" by (simp add: valid_categories_def)
  obtain r where r: "validate_classification_result unreachable (VDict ?items) [] [] = Inr r"
    "res_method r = ''ollama_ai''"
    "\<forall>c. map_of ?items ''category'' = Some (VStr c) \<longrightarrow>
          res_category r = (if c \<in> set valid_categories then c else ''general_inquiry'')"
    "\<forall>t. map_of ?items ''summary'' = Some (VStr t) \<longrightarrow>
          res_summary r = VStr (if length t > 500 then take 497 t @ ''...'' else t) \<and>
          (length t > 500 \<longrightarrow> length (take 497 t @ ''...'') = 500)"
    "\<forall>q. map_of ?items ''confidence'' = Some (VFloat (Finite q)) \<longrightarrow>
          res_confidence r = VFloat (Finite (if 0 \<le> q \<and> q \<le> 1 then q else 7 / 10))"
    using validation_cleans_result [where items = ?items and self = unreachable and s = "[]" and d = "[]", OF h nb nn]
    by blast
  have r1: "res_category r = ''general_inquiry''" using r(3) c n by simp
  have r2: "res_summary r = VStr (replicate 497 CHR ''x'' @ ''...'')" using r(4) s by simp
  have r3: "res_confidence r = VFloat (Finite (7 / 10))"
    using r(5) [rule_format, of "15 / 10"] k by simp
  show ?thesis using s k r(1,2) r1 r2 r3 by (simp add: clamped_answer_def)
qed

section \<open>Properties of the tasks\<close>

subsection \<open>What a run writes\<close>

lemma stamp_fields [simp]:
  "customer_name (stamp db rid r t) = customer_name r"
  "email (stamp db rid r t) = email r"
  "subject (stamp db rid r t) = subject r"
  "description (stamp db rid r t) = description r"
  "category (stamp db rid r t) = category r"
  "ai_summary (stamp db rid r t) = ai_summary r"
  "processing_status (stamp db rid r t) = processing_status r"
  "notification_sent (stamp db rid r t) = notification_sent r"
  "created_at (stamp db rid r t) = created_at r"
  "processed_at (stamp db rid r t) = processed_at r"
  by (simp_all add: stamp_def)

lemma stamp_changed:
  "db rid = Some r0 \<Longrightarrow> processing_status r0 \<noteq> processing_status r \<Longrightarrow>
   stamp db rid r t = r\<lparr>updated_at := t\<rparr>"
  by (auto simp: stamp_def)

lemma stamp_completed:
  assumes "processing_status r1 = ''processing''"
  shows "stamp (db(rid \<mapsto> r1)) rid
           (r1\<lparr>category := Some cat, ai_summary := Some summary,
               processed_at := Some (utcnow_processed w), processing_status := ''completed''\<rparr>)
           (utcnow_completed w) = row_completed w cat summary r1"
  using assms by (subst stamp_changed [where ?r0.0 = r1]) (simp_all add: row_completed_def)

lemma stamp_failed:
  assumes "processing_status r \<noteq> ''failed''"
  shows "stamp (db(rid \<mapsto> r)) rid (r\<lparr>processing_status := ''failed''\<rparr>) (utcnow_failed w)
           = row_failed w r"
  using assms by (subst stamp_changed [where ?r0.0 = r]) (simp_all add: row_failed_def)

lemma row_status [simp]:
  "processing_status (row_processing w db rid request) = ''processing''"
  "processing_status (row_completed w cat summary r) = ''completed''"
  "processing_status (row_failed w r) = ''failed''"
  by (simp_all add: row_processing_def row_completed_def row_failed_def)

lemma process_run:
  assumes found: "db rid = Some request" and todo: "processing_status request \<noteq> ''completed''"
    and cls: "classify_request (ai w) (subject request) (description request) = Inr c"
    and summ: "res_summary c = VStr t"
  shows "process_support_request w db rid =
    (let r1 = row_processing w db rid request; r2 = row_completed w (res_category c) t r1;
         r3 = row_failed w r2;
         ret = Inr (Some (rid, res_category c, res_summary c))
     in if res_category c = ''cancellation_request''
        then (case delay_raises w of
                None \<Rightarrow> (ret, db(rid \<mapsto> r2), [Commit rid r1, Commit rid r2, Delay rid])
              | Some e \<Rightarrow> (Inl e, db(rid \<mapsto> r3), [Commit rid r1, Commit rid r2, Commit rid r3]))
        else (ret, db(rid \<mapsto> r2), [Commit rid r1, Commit rid r2]))"
proof -
  define r1 where "r1 = row_processing w db rid request"
  have s1: "processing_status r1 = ''processing''"
    and sd: "subject r1 = subject request" "description r1 = description request"
    by (simp_all add: r1_def row_processing_def)
  have r1': "stamp db rid (request\<lparr>processing_status := ''processing''\<rparr>) (utcnow_processing w) = r1"
    by (simp add: r1_def row_processing_def)
  have f: "stamp (db(rid \<mapsto> row_completed w cat t r1)) rid
       ((row_completed w cat t r1)\<lparr>processing_status := ''failed''\<rparr>) (utcnow_failed w)
         = row_failed w (row_completed w cat t r1)" for cat
    by (rule stamp_failed) simp
  show ?thesis
    by (simp add: process_support_request_def Let_def found todo r1' sd cls summ
        stamp_completed [OF s1] f mark_failed_def r1_def [symmetric] split: option.split)
qed

lemma process_rejected:
  assumes found: "db rid = Some request" and todo: "processing_status request \<noteq> ''completed''"
    and cls: "classify_request (ai w) (subject request) (description request) = Inr c"
    and summ: "\<forall>t. res_summary c \<noteq> VStr t"
  shows "process_support_request w db rid =
    (let r1 = row_processing w db rid request
     in case recommit w of
          Some e \<Rightarrow> (Inl e, db(rid \<mapsto> r1), [Commit rid r1])
        | None \<Rightarrow> (Inl StatementError, db(rid \<mapsto> row_failed w r1),
                   [Commit rid r1, Commit rid (row_failed w r1)]))"
proof -
  define r1 where "r1 = row_processing w db rid request"
  have s1: "processing_status r1 \<noteq> ''failed''"
    and sd: "subject r1 = subject request" "description r1 = description request"
    by (simp_all add: r1_def row_processing_def)
  have r1': "stamp db rid (request\<lparr>processing_status := ''processing''\<rparr>) (utcnow_processing w) = r1"
    by (simp add: r1_def row_processing_def)
  have rej: "(case res_summary c of VStr summary \<Rightarrow> a summary | _ \<Rightarrow> b) = b" for a and b :: 'z
    using summ by (cases "res_summary c") simp_all
  show ?thesis
    by (simp add: process_support_request_def Let_def found todo r1' sd cls rej
        rejected_commit_def stamp_failed [OF s1] mark_failed_def r1_def [symmetric]
        split: option.split)
qed

lemma process_absent: "db rid = None \<Longrightarrow> process_support_request w db rid = (Inl AttributeError, db, [])"
  by (simp add: process_support_request_def mark_failed_def)

lemma process_completed:
  "db rid = Some request \<Longrightarrow> processing_status request = ''completed'' \<Longrightarrow>
   process_support_request w db rid = (Inr None, db, [])"
  by (simp add: process_support_request_def)

subsection \<open>Requests that are already completed\<close>

text \<open>
  Claim C5. When the processing status of the request is already completed, a run of the
  processing task returns at once with success, leaves the store as it is and makes no
  call: no commit and no enqueue of a notification task. A second run, on the store the
  first one left, does the same.
\<close>

theorem completed_request_is_skipped:
  assumes "db rid = Some request" and "processing_status request = ''completed''"
  shows "process_support_request w db rid = (Inr None, db, [])
       \<and> process_support_request w' (fst (snd (process_support_request w db rid))) rid
           = (Inr None, db, [])
       \<and> process_support_request_task retries w db rid = (SUCCESS None, db, [])"
  using assms by (simp add: process_support_request_def process_support_request_task_def autoretry_def)

text \<open>The theorem on the store that holds the completed sample request.\<close>

theorem completed_request_is_skipped_witness:
  "completed_store 1 = Some completed_request \<and> processing_status completed_request = ''completed''
   \<and> process_support_request offline_worker completed_store 1 = (Inr None, completed_store, [])
   \<and> process_support_request later_worker
        (fst (snd (process_support_request offline_worker completed_store 1))) 1
        = (Inr None, completed_store, [])"
proof -
  have a: "completed_store 1 = Some completed_request" by (simp add: completed_store_def)
  have b: "processing_status completed_request = ''completed''" by (simp add: completed_request_def)
  show ?thesis
    using a b completed_request_is_skipped [where db = completed_store and rid = 1
        and request = completed_request and w = offline_worker and w' = later_worker
        and retries = 0]
    by blast
qed

subsection \<open>Requests that are not in the store\<close>

text \<open>
  Claim C2, as the code has it. When the store holds no request under the id, a run of the
  processing task raises, makes no commit and no enqueue, and leaves the store unchanged.
  As for every exception of this task, the queue schedules the delivery again after 60
  seconds while the retry count is below 3, and the task fails for good only after that.
\<close>

theorem absent_request_raises_and_is_retried:
  assumes "db rid = None"
  shows "\<exists>e. process_support_request w db rid = (Inl e, db, [])
       \<and> (\<forall>retries. retries < 3 \<longrightarrow> process_support_request_task retries w db rid = (RETRY e 60, db, []))
       \<and> (\<forall>retries. 3 \<le> retries \<longrightarrow> process_support_request_task retries w db rid = (FAILURE e, db, []))"
  using assms by (simp add: process_support_request_def process_support_request_task_def autoretry_def mark_failed_def)

text \<open>
  A first delivery for an id that the empty store does not hold is scheduled for a retry,
  it is no fatal error; and the exception that reaches the queue is the
  \<open>AttributeError\<close> of the \<open>except\<close> block, not the \<open>ValueError\<close> raised for
  the missing row.
\<close>

theorem absent_request_is_retried:
  "process_support_request_task 0 offline_worker Map.empty 7 =
     (RETRY AttributeError 60, Map.empty, [])"
  by (simp add: process_support_request_task_def process_support_request_def mark_failed_def
      autoretry_def)

text \<open>The theorem on the empty store, at the retry counts 2 and 3.\<close>

theorem absent_request_raises_and_is_retried_witness:
  "(Map.empty :: store) 7 = None
   \<and> (\<exists>e. process_support_request offline_worker Map.empty 7 = (Inl e, Map.empty, [])
        \<and> process_support_request_task 2 offline_worker Map.empty 7 = (RETRY e 60, Map.empty, [])
        \<and> process_support_request_task 3 offline_worker Map.empty 7 = (FAILURE e, Map.empty, []))"
proof -
  have a: "(Map.empty :: store) 7 = None" by simp
  obtain e where e: "process_support_request offline_worker Map.empty 7 = (Inl e, Map.empty, [])"
    "\<forall>retries. retries < 3 \<longrightarrow> process_support_request_task retries offline_worker Map.empty 7 = (RETRY e 60, Map.empty, [])"
    "\<forall>retries. 3 \<le> retries \<longrightarrow> process_support_request_task retries offline_worker Map.empty 7 = (FAILURE e, Map.empty, [])"
    using absent_request_raises_and_is_retried [where db = Map.empty and rid = 7 and w = offline_worker] a by blast
  have "process_support_request_task 2 offline_worker Map.empty 7 = (RETRY e 60, Map.empty, [])"
    using e(2) by simp
  moreover have "process_support_request_task 3 offline_worker Map.empty 7 = (FAILURE e, Map.empty, [])"
    using e(3) by simp
  ultimately show ?thesis using a e(1) by blast
qed

subsection \<open>The completing commit\<close>




subsection \<open>The enqueue of the notification\<close>





subsection \<open>The time of processing\<close>

lemma process_store:
  assumes "delay_raises w = None"
  shows "fst (snd (process_support_request w db rid)) = db \<or>
     (\<exists>request r. db rid = Some request \<and> processing_status request \<noteq> ''completed'' \<and>
        fst (snd (process_support_request w db rid)) = db(rid \<mapsto> r) \<and>
        (processing_status r = ''completed'' \<and> processed_at r \<noteq> None \<or>
         processing_status r \<noteq> ''completed'' \<and> processed_at r = processed_at request))"
proof (cases "db rid")
  case None
  then show ?thesis by (simp add: process_absent)
next
  case (Some request)
  note found = Some
  show ?thesis
  proof (cases "processing_status request = ''completed''")
    case True
    with Some show ?thesis by (simp add: process_completed)
  next
    case False
    obtain c where c: "classify_request (ai w) (subject request) (description request) = Inr c"
      using classify_request_returns by blast
    let ?r1 = "row_processing w db rid request"
    have r1: "processing_status ?r1 \<noteq> ''completed''" "processed_at ?r1 = processed_at request"
      "processing_status (row_failed w ?r1) \<noteq> ''completed''"
      "processed_at (row_failed w ?r1) = processed_at request"
      by (simp_all add: row_processing_def row_failed_def)
    have "\<exists>r. fst (snd (process_support_request w db rid)) = db(rid \<mapsto> r) \<and>
        (processing_status r = ''completed'' \<and> processed_at r \<noteq> None \<or>
         processing_status r \<noteq> ''completed'' \<and> processed_at r = processed_at request)"
    proof (cases "\<exists>t. res_summary c = VStr t")
      case True
      then obtain t where t: "res_summary c = VStr t" by blast
      let ?r2 = "row_completed w (res_category c) t ?r1"
      have "fst (snd (process_support_request w db rid)) = db(rid \<mapsto> ?r2)"
        using process_run [of db rid request w c t, OF found False c t] assms by (simp add: Let_def)
      moreover have "processing_status ?r2 = ''completed''" "processed_at ?r2 \<noteq> None"
        by (simp_all add: row_completed_def)
      ultimately show ?thesis by blast
    next
      case no: False
      then have nt: "\<forall>t. res_summary c \<noteq> VStr t" by blast
      show ?thesis
      proof (cases "recommit w")
        case None
        then have "fst (snd (process_support_request w db rid)) = db(rid \<mapsto> row_failed w ?r1)"
          using process_rejected [of db rid request w c, OF found False c nt] by (simp add: Let_def)
        with r1 show ?thesis by blast
      next
        case (Some e)
        then have "fst (snd (process_support_request w db rid)) = db(rid \<mapsto> ?r1)"
          using process_rejected [of db rid request w c, OF found False c nt]
          by (simp add: Let_def)
        with r1 show ?thesis by blast
      qed
    qed
    with Some False show ?thesis by blast
  qed
qed

lemma notify_store:
  "fst (snd (send_teams_notification w db rid)) = db \<or>
     (\<exists>request r. db rid = Some request \<and>
        fst (snd (send_teams_notification w db rid)) = db(rid \<mapsto> r) \<and>
        processing_status r = processing_status request \<and> processed_at r = processed_at request)"
  by (cases "db rid") (auto simp: send_teams_notification_def Let_def)

lemma deliver_invariant:
  assumes inv: "\<forall>k r. db k = Some r \<longrightarrow> processed_iff_completed r" and ok: "enqueue_accepted d"
  shows "(\<forall>k r. deliver db d k = Some r \<longrightarrow> processed_iff_completed r) \<and>
         (\<forall>k r t. db k = Some r \<longrightarrow> processed_at r = Some t \<longrightarrow>
            (\<exists>r'. deliver db d k = Some r' \<and> processed_at r' = Some t))"
proof (cases d)
  case (Process w rid)
  with ok have acc: "delay_raises w = None" by (simp add: enqueue_accepted_def)
  show ?thesis
    using process_store [OF acc, of db rid] inv unfolding Process deliver.simps
    by (elim disjE exE conjE) (auto simp: processed_iff_completed_def)
next
  case (Notify w rid)
  show ?thesis
    using notify_store [of w db rid] inv unfolding Notify deliver.simps
    by (elim disjE exE conjE) (auto simp: processed_iff_completed_def)
qed

lemma deliver_all_invariant:
  "\<forall>k r. db k = Some r \<longrightarrow> processed_iff_completed r \<Longrightarrow> \<forall>d \<in> set ds. enqueue_accepted d \<Longrightarrow>
   (\<forall>k r. deliver_all db ds k = Some r \<longrightarrow> processed_iff_completed r) \<and>
   (\<forall>k r t. db k = Some r \<longrightarrow> processed_at r = Some t \<longrightarrow>
      (\<exists>r'. deliver_all db ds k = Some r' \<and> processed_at r' = Some t))"
proof (induction ds arbitrary: db)
  case Nil
  then show ?case by (simp add: deliver_all_def)
next
  case (Cons d ds)
  have step: "(\<forall>k r. deliver db d k = Some r \<longrightarrow> processed_iff_completed r) \<and>
         (\<forall>k r t. db k = Some r \<longrightarrow> processed_at r = Some t \<longrightarrow>
            (\<exists>r'. deliver db d k = Some r' \<and> processed_at r' = Some t))"
    using deliver_invariant [of db d] Cons.prems by simp
  have rest: "(\<forall>k r. deliver_all (deliver db d) ds k = Some r \<longrightarrow> processed_iff_completed r) \<and>
   (\<forall>k r t. deliver db d k = Some r \<longrightarrow> processed_at r = Some t \<longrightarrow>
      (\<exists>r'. deliver_all (deliver db d) ds k = Some r' \<and> processed_at r' = Some t))"
    using Cons.IH [of "deliver db d"] step Cons.prems by simp
  have unfold: "deliver_all db (d # ds) = deliver_all (deliver db d) ds"
    by (simp add: deliver_all_def)
  show ?case unfolding unfold using step rest by blast
qed

text \<open>
  Claim C3, as the code has it. Take a store in which \<open>processed_at\<close> is set exactly for
  the completed requests, and any sequence of runs of the two tasks in which no enqueue of
  a notification raises. Then in the store after the sequence \<open>processed_at\<close> is again
  set exactly for the completed requests (so it is null until the status is completed),
  and a \<open>processed_at\<close> that was set at the start has kept its value.
\<close>

theorem processed_at_set_once:
  assumes "\<forall>k r. db k = Some r \<longrightarrow> processed_iff_completed r"
    and "\<forall>d \<in> set ds. enqueue_accepted d"
  shows "(\<forall>k r. deliver_all db ds k = Some r \<longrightarrow> processed_iff_completed r) \<and>
         (\<forall>k r t. db k = Some r \<longrightarrow> processed_at r = Some t \<longrightarrow>
            (\<exists>r'. deliver_all db ds k = Some r' \<and> processed_at r' = Some t))"
  using assms by (rule deliver_all_invariant)

text \<open>
  When the broker refuses the notification task, the run marks the request failed after it
  has committed the completed row: \<open>processed_at\<close> is set and the status is failed. The
  next delivery classifies again and overwrites \<open>processed_at\<close>, 120 before and 200 after.
\<close>

theorem processed_at_survives_failure_and_changes:
  "deliver_all sample_store [Process broker_down_worker 1] 1 =
     Some (sample_request\<lparr>category := Some ''cancellation_request'',
        ai_summary := Some ''Fallback classification: cancellation_request (keyword: cancel)'',
        processed_at := Some 120, processing_status := ''failed'', updated_at := 130\<rparr>)
   \<and> deliver_all sample_store [Process broker_down_worker 1, Process later_worker 1] 1 =
     Some (sample_request\<lparr>category := Some ''cancellation_request'',
        ai_summary := Some ''Fallback classification: cancellation_request (keyword: cancel)'',
        processed_at := Some 200, processing_status := ''completed'', updated_at := 201\<rparr>)"
  by (simp add: deliver_all_def process_support_request_def Let_def stamp_def mark_failed_def
      sample_store_def sample_request_def broker_down_worker_def later_worker_def
      offline_worker_def sample_classify)

text \<open>The theorem on the completed sample request, delivered again and then notified.\<close>

theorem processed_at_set_once_witness:
  "processed_iff_completed completed_request
   \<and> enqueue_accepted (Process later_worker 1) \<and> enqueue_accepted (Notify accepted_sender 1)
   \<and> (\<exists>r'. deliver_all completed_store [Process later_worker 1, Notify accepted_sender 1] 1 = Some r'
          \<and> processed_at r' = Some 120 \<and> processed_iff_completed r')"
proof -
  let ?ds = "[Process later_worker 1, Notify accepted_sender 1]"
  have i: "processed_iff_completed completed_request"
    by (simp add: processed_iff_completed_def completed_request_def)
  have h1: "\<forall>k r. completed_store k = Some r \<longrightarrow> processed_iff_completed r"
    using i by (simp add: completed_store_def)
  have a: "enqueue_accepted (Process later_worker 1)" "enqueue_accepted (Notify accepted_sender 1)"
    by (simp_all add: enqueue_accepted_def later_worker_def offline_worker_def)
  then have h2: "\<forall>d \<in> set ?ds. enqueue_accepted d" by simp
  note T = processed_at_set_once [where db = completed_store and ds = ?ds, OF h1 h2]
  have "completed_store 1 = Some completed_request" "processed_at completed_request = Some 120"
    by (simp_all add: completed_store_def completed_request_def)
  with T obtain r' where r': "deliver_all completed_store ?ds 1 = Some r'" "processed_at r' = Some 120"
    by blast
  with T have "processed_iff_completed r'" by blast
  with i a r' show ?thesis by blast
qed

subsection \<open>Notifications that were already sent\<close>

lemma notify_skip:
  "db rid = Some request \<Longrightarrow> notification_sent request = ''true'' \<Longrightarrow>
   send_teams_notification w db rid = (Inr None, db, [])"
  by (simp add: send_teams_notification_def)

lemma notify_skip_all:
  "db rid = Some request \<Longrightarrow> notification_sent request = ''true'' \<Longrightarrow>
   deliver_all db (map (\<lambda>w. Notify w rid) ws) = db"
  unfolding deliver_all_def
  by (induction ws) (simp_all add: notify_skip)

text \<open>
  Claim C10. When \<open>notification_sent\<close> of the request is already "true", a run of the
  notification task returns at once, makes no call (no POST to the webhook, no commit) and
  leaves the store unchanged; so does a second run, and so does any number of runs one
  after the other.
\<close>

theorem sent_notification_is_skipped:
  assumes "db rid = Some request" and "notification_sent request = ''true''"
  shows "send_teams_notification w db rid = (Inr None, db, [])
       \<and> send_teams_notification w' (fst (snd (send_teams_notification w db rid))) rid
           = (Inr None, db, [])
       \<and> deliver_all db (map (\<lambda>w. Notify w rid) ws) = db
       \<and> send_teams_notification_task retries w db rid = (SUCCESS None, db, [])"
  using assms
  by (simp add: notify_skip notify_skip_all send_teams_notification_task_def autoretry_def)

text \<open>The theorem on the store that holds the notified request, with three deliveries.\<close>

theorem sent_notification_is_skipped_witness:
  "notified_store 1 = Some notified_request \<and> notification_sent notified_request = ''true''
   \<and> send_teams_notification accepted_sender notified_store 1 = (Inr None, notified_store, [])
   \<and> deliver_all notified_store [Notify accepted_sender 1, Notify rejected_sender 1, Notify accepted_sender 1]
        = notified_store"
proof -
  have a: "notified_store 1 = Some notified_request" by (simp add: notified_store_def)
  have b: "notification_sent notified_request = ''true''" by (simp add: notified_request_def)
  show ?thesis
    using a b sent_notification_is_skipped [where db = notified_store and rid = 1
        and request = notified_request and w = accepted_sender and w' = accepted_sender
        and ws = "[accepted_sender, rejected_sender, accepted_sender]" and retries = 0]
    by simp
qed

subsection \<open>The flag of the notification\<close>

text \<open>
  Claim C1 says that \<open>notification_sent\<close> becomes "true" only after the webhook has
  confirmed the delivery. The task does not look at what the notifier returns: with no
  webhook configured the notifier makes no POST and returns none, with a webhook that
  answers 500 it returns none as well, and in both runs the task commits
  \<open>notification_sent\<close> = "true" and returns with a notification id of none.
\<close>

theorem notification_flag_set_without_delivery:
  "send_teams_notification unconfigured_sender completed_store 1 =
     (Inr (Some (1, None)),
      completed_store(1 \<mapsto> completed_request\<lparr>notification_sent := ''true'', updated_at := 201\<rparr>),
      [Commit 1 (completed_request\<lparr>notification_sent := ''true'', updated_at := 201\<rparr>)])
   \<and> send_teams_notification rejected_sender completed_store 1 =
     (Inr (Some (1, None)),
      completed_store(1 \<mapsto> completed_request\<lparr>notification_sent := ''true'', updated_at := 201\<rparr>),
      [Post ''https://hooks.example.org/teams'' (build_card 1 completed_request),
       Commit 1 (completed_request\<lparr>notification_sent := ''true'', updated_at := 201\<rparr>)])"
  by (simp add: send_teams_notification_def send_cancellation_alert_def Let_def stamp_def
      completed_store_def completed_request_def sample_request_def unconfigured_sender_def
      rejected_sender_def)

end
